theory Spec2Isabelle
  imports Main "HOL-Library.Multiset" "HOL-Library.Char_ord" "HOL-Library.List_Lexorder"
begin

section \<open>JavaScript values as the services use them\<close>

text \<open>
  The services read flat records of an external record store. A property of such a
  record holds a value, is \<open>null\<close>, or is missing (\<open>undefined\<close>). Text properties are
  strings, numeric properties are integers (the finite precision and the finite range of
  a JavaScript Number and of a Date's time value are outside this model), and strings are
  sequences of ASCII characters.
\<close>

datatype 'a js = Undefined | Null | Val 'a

text \<open>Truthiness, as the operators \<open>||\<close>, \<open>!\<close> and \<open>? :\<close> test it.\<close>

fun truthyS :: "string js \<Rightarrow> bool" where
  "truthyS (Val s) = (s \<noteq> [])"
| "truthyS _ = False"

fun truthyN :: "int js \<Rightarrow> bool" where
  "truthyN (Val n) = (n \<noteq> 0)"
| "truthyN _ = False"

text \<open>\<open>a || b\<close> on text and on numbers.\<close>

definition orS :: "string js \<Rightarrow> string js \<Rightarrow> string js" where
  "orS a b = (if truthyS a then a else b)"

definition orN :: "int js \<Rightarrow> int js \<Rightarrow> int js" where
  "orN a b = (if truthyN a then a else b)"

text \<open>
  A lookup property (\<open>added_by_c\<close>) holds either the referenced record as an object
  \<open>{Id, Name}\<close> or the bare number of the record.
\<close>

datatype ref = RefObj "int js" "string js" | RefId int

text \<open>\<open>r?.Id\<close> and \<open>r?.Name\<close>: a number has neither property.\<close>

fun optId :: "ref js \<Rightarrow> int js" where
  "optId (Val (RefObj i n)) = i"
| "optId _ = Undefined"

fun optName :: "ref js \<Rightarrow> string js" where
  "optName (Val (RefObj i n)) = n"
| "optName _ = Undefined"

text \<open>\<open>r?.Id || r\<close>: the number of the referenced record when there is one, else \<open>r\<close> itself.\<close>

definition idOrSelf :: "ref js \<Rightarrow> ref js" where
  "idOrSelf r = (case optId r of Val k \<Rightarrow> (if k \<noteq> 0 then Val (RefId k) else r) | _ \<Rightarrow> r)"

fun truthyR :: "ref js \<Rightarrow> bool" where
  "truthyR (Val (RefObj i n)) = True"
| "truthyR (Val (RefId k)) = (k \<noteq> 0)"
| "truthyR _ = False"

definition orR :: "ref js \<Rightarrow> ref js \<Rightarrow> ref js" where
  "orR a b = (if truthyR a then a else b)"

text \<open>
  \<open>a === n\<close> where \<open>n\<close> is the \<open>Id\<close> of a record: only a number can be identical to a
  number, \<open>null\<close> to \<open>null\<close>, \<open>undefined\<close> to \<open>undefined\<close>; an object is never identical to
  a value of another response.
\<close>

fun strictEqId :: "ref js \<Rightarrow> int js \<Rightarrow> bool" where
  "strictEqId (Val (RefId k)) (Val n) = (k = n)"
| "strictEqId Null Null = True"
| "strictEqId Undefined Undefined = True"
| "strictEqId _ _ = False"

text \<open>A number that may be \<open>NaN\<close>.\<close>

datatype num = NaN | Fin int

text \<open>The property key a value is converted to (\<open>obj[v]\<close>).\<close>

fun toKey :: "string js \<Rightarrow> string" where
  "toKey (Val s) = s"
| "toKey Null = ''null''"
| "toKey Undefined = ''undefined''"

subsection \<open>Strings\<close>

definition lowerChar :: "char \<Rightarrow> char" where
  "lowerChar c = (if CHR ''A'' \<le> c \<and> c \<le> CHR ''Z'' then char_of (of_char c + (32::nat)) else c)"

definition toLowerCase :: "string \<Rightarrow> string" where
  "toLowerCase s = map lowerChar s"

text \<open>\<open>s.replace(/\/$/, '')\<close>: one trailing slash is removed.\<close>

definition stripTrailingSlash :: "string \<Rightarrow> string" where
  "stripTrailingSlash s = (if s \<noteq> [] \<and> last s = CHR ''/'' then butlast s else s)"

text \<open>\<open>s.replace(/^https?:\/\//, '')\<close>.\<close>

definition stripScheme :: "string \<Rightarrow> string" where
  "stripScheme s =
     (if take 8 s = ''https://'' then drop 8 s
      else if take 7 s = ''http://'' then drop 7 s
      else s)"

definition isSpace :: "char \<Rightarrow> bool" where
  "isSpace c = (c \<in> set [CHR '' '', CHR 0x09, CHR 0x0A, CHR 0x0B, CHR 0x0C, CHR 0x0D])"

text \<open>\<open>s.trim()\<close>.\<close>

definition trim :: "string \<Rightarrow> string" where
  "trim s = rev (dropWhile isSpace (rev (dropWhile isSpace s)))"


subsection \<open>Objects used as dictionaries\<close>

text \<open>
  An object used as a dictionary is the list of its own properties, in the order they
  were created; the keys are distinct. Only own properties are modelled: the keys are
  not names of members of \<open>Object.prototype\<close>.
\<close>

type_synonym 'v obj = "(string \<times> 'v) list"

text \<open>\<open>obj[k]\<close>, \<open>None\<close> being \<open>undefined\<close>.\<close>

definition getProp :: "'v obj \<Rightarrow> string \<Rightarrow> 'v option" where
  "getProp obj k = map_of obj k"

text \<open>\<open>obj[k] = v\<close>: an existing property keeps its place, a new one is added last.\<close>

fun setProp :: "string \<Rightarrow> 'v \<Rightarrow> 'v obj \<Rightarrow> 'v obj" where
  "setProp k v [] = [(k, v)]"
| "setProp k v ((k', v') # obj) =
     (if k' = k then (k, v) # obj else (k', v') # setProp k v obj)"

text \<open>
  \<open>Object.values(obj)\<close>: the properties whose key is an array index (a canonical decimal
  numeral below \<open>2^32 - 1\<close>) come first, in ascending numeric order, then the others
  in creation order.
\<close>

definition isDigit :: "char \<Rightarrow> bool" where
  "isDigit c = (CHR ''0'' \<le> c \<and> c \<le> CHR ''9'')"

definition digitValue :: "char \<Rightarrow> int" where
  "digitValue c = of_char c - 48"

definition decimalValue :: "string \<Rightarrow> int" where
  "decimalValue s = foldl (\<lambda>a c. 10 * a + digitValue c) 0 s"

definition isArrayIndex :: "string \<Rightarrow> bool" where
  "isArrayIndex s =
     (s \<noteq> [] \<and> list_all isDigit s \<and> (s = ''0'' \<or> hd s \<noteq> CHR ''0'')
      \<and> decimalValue s < 4294967295)"

definition objectValues :: "'v obj \<Rightarrow> 'v list" where
  "objectValues obj =
     map snd (sort_key (\<lambda>p. decimalValue (fst p)) (filter (\<lambda>p. isArrayIndex (fst p)) obj)
              @ filter (\<lambda>p. \<not> isArrayIndex (fst p)) obj)"

text \<open>
  \<open>xs.sort((a, b) => f(b) - f(a))\<close> for a count \<open>f\<close>: the sort is stable, so the result is
  the stable arrangement of \<open>xs\<close> by descending \<open>f\<close>.
\<close>

definition sortDescending :: "('a \<Rightarrow> nat) \<Rightarrow> 'a list \<Rightarrow> 'a list" where
  "sortDescending f xs = sort_key (\<lambda>x. - int (f x)) xs"

text \<open>
  \<open>Math.round((a / b) * 100)\<close> for \<open>b > 0\<close>, in exact arithmetic: \<open>Math.round x\<close> is the
  integer \<open>\<lfloor>x + 1/2\<rfloor>\<close>.
\<close>

definition roundPercent :: "int \<Rightarrow> int \<Rightarrow> int" where
  "roundPercent a b = (200 * a + b) div (2 * b)"

text \<open>
  \<open>parseInt(s)\<close>: leading white space, a sign, then hexadecimal digits after \<open>0x\<close> or
  decimal digits; \<open>NaN\<close> when there is no digit.
\<close>

definition hexValue :: "char \<Rightarrow> int option" where
  "hexValue c =
     (if isDigit c then Some (digitValue c)
      else if CHR ''a'' \<le> c \<and> c \<le> CHR ''f'' then Some (of_char c - 87)
      else if CHR ''A'' \<le> c \<and> c \<le> CHR ''F'' then Some (of_char c - 55)
      else None)"

definition parseDigits :: "int \<Rightarrow> string \<Rightarrow> num" where
  "parseDigits base s =
     (let ds = takeWhile (\<lambda>c. case hexValue c of Some v \<Rightarrow> v < base | None \<Rightarrow> False) s
      in if ds = [] then NaN
         else Fin (foldl (\<lambda>a c. base * a + the (hexValue c)) 0 ds))"

definition parseUnsigned :: "string \<Rightarrow> num" where
  "parseUnsigned s =
     (if take 2 s = ''0x'' \<or> take 2 s = ''0X'' then parseDigits 16 (drop 2 s)
      else parseDigits 10 s)"

definition negate :: "num \<Rightarrow> num" where
  "negate n = (case n of NaN \<Rightarrow> NaN | Fin k \<Rightarrow> Fin (- k))"

definition parseInt :: "string \<Rightarrow> num" where
  "parseInt s =
     (case dropWhile isSpace s of
        c # rest \<Rightarrow>
          (if c = CHR ''-'' then negate (parseUnsigned rest)
           else if c = CHR ''+'' then parseUnsigned rest
           else parseUnsigned (c # rest))
      | [] \<Rightarrow> NaN)"

subsection \<open>Dates\<close>

text \<open>
  A Date is its time value, the milliseconds since the epoch. \<open>toISOString\<close> is in UTC
  and is computed here; what depends on the time zone or the locale of the host is a
  field of \<open>host\<close>.
\<close>

definition msPerDay :: int where
  "msPerDay = 24 * 60 * 60 * 1000"

text \<open>The decimal digits of a number that is not negative.\<close>

function digits :: "int \<Rightarrow> string" where
  "digits n =
     (if n < 10 then [''0123456789'' ! nat n]
      else digits (n div 10) @ [''0123456789'' ! nat (n mod 10)])"
  by pat_completeness auto
termination
  by (relation "measure nat") auto

declare digits.simps [simp del]

definition pad :: "nat \<Rightarrow> int \<Rightarrow> string" where
  "pad w n = replicate (w - length (digits n)) (CHR ''0'') @ digits n"

text \<open>The civil date (year, month, day) of a day number, day 0 being 1970-01-01.\<close>

definition civil :: "int \<Rightarrow> int \<times> int \<times> int" where
  "civil d =
     (let z = d + 719468;
          era = z div 146097;
          doe = z mod 146097;
          yoe = (doe - doe div 1460 + doe div 36524 - doe div 146096) div 365;
          doy = doe - (365 * yoe + yoe div 4 - yoe div 100);
          mp = (5 * doy + 2) div 153;
          dd = doy - (153 * mp + 2) div 5 + 1;
          m = (if mp < 10 then mp + 3 else mp - 9);
          y = yoe + era * 400 + (if m \<le> 2 then 1 else 0)
      in (y, m, dd))"

definition isoYear :: "int \<Rightarrow> string" where
  "isoYear y =
     (if 0 \<le> y \<and> y \<le> 9999 then pad 4 y
      else (if y < 0 then ''-'' else ''+'') @ pad 6 \<bar>y\<bar>)"

text \<open>The date part \<open>YYYY-MM-DD\<close> of day number \<open>d\<close>.\<close>

definition dayString :: "int \<Rightarrow> string" where
  "dayString d =
     (case civil d of (y, m, dd) \<Rightarrow> isoYear y @ ''-'' @ pad 2 m @ ''-'' @ pad 2 dd)"

text \<open>\<open>date.toISOString().split('T')[0]\<close>.\<close>

definition isoDate :: "int \<Rightarrow> string" where
  "isoDate t = dayString (t div msPerDay)"

text \<open>\<open>date.toISOString()\<close>.\<close>

definition toISOString :: "int \<Rightarrow> string" where
  "toISOString t =
     (let r = t mod msPerDay
      in isoDate t @ ''T'' @ pad 2 (r div 3600000) @ '':''
         @ pad 2 (r div 60000 mod 60) @ '':'' @ pad 2 (r div 1000 mod 60) @ ''.''
         @ pad 3 (r mod 1000) @ ''Z'')"

record host =
  now :: int  \<comment> \<open>\<open>new Date()\<close>, one instant for a whole operation\<close>
  dateParse :: "string \<Rightarrow> int option"  \<comment> \<open>\<open>new Date(s)\<close>; \<open>None\<close> is an invalid date\<close>
  toDateString :: "int \<Rightarrow> string"  \<comment> \<open>the local calendar date of an instant\<close>
  toLocaleDateString :: "int \<Rightarrow> string"  \<comment> \<open>\<open>en-US\<close>, short month and numeric day\<close>
  localMidnight :: "int \<Rightarrow> int"  \<comment> \<open>\<open>new Date(d.getFullYear(), d.getMonth(), d.getDate())\<close>\<close>
  endOfLocalDay :: "int \<Rightarrow> int"  \<comment> \<open>\<open>d.setHours(23, 59, 59, 999)\<close>\<close>
  plusLocalDays :: "int \<Rightarrow> int \<Rightarrow> int"  \<comment> \<open>\<open>d.setDate(d.getDate() + n)\<close>\<close>

text \<open>\<open>new Date(v)\<close>: \<open>undefined\<close> gives an invalid date, \<open>null\<close> the epoch.\<close>

fun newDate :: "host \<Rightarrow> string js \<Rightarrow> int option" where
  "newDate h (Val s) = dateParse h s"
| "newDate h Null = Some 0"
| "newDate h Undefined = None"

text \<open>\<open>d.toDateString()\<close>, also of an invalid date.\<close>

fun dateString :: "host \<Rightarrow> int option \<Rightarrow> string" where
  "dateString h (Some t) = toDateString h t"
| "dateString h None = ''Invalid Date''"

text \<open>\<open>d >= e\<close> on dates: false when \<open>d\<close> is invalid.\<close>

fun dateGe :: "int option \<Rightarrow> int \<Rightarrow> bool" where
  "dateGe (Some t) e = (e \<le> t)"
| "dateGe None e = False"

section \<open>Records, the record-store client, effects\<close>

text \<open>
  Objects are open: a property an object does not have reads as \<open>undefined\<close>. One record
  type holds every property the services read or write on a lead object, the external
  names (\<open>website_url_c\<close>) and the internal ones (\<open>websiteUrl\<close>); an object literal of the
  source is \<open>noLead\<close> with the properties the literal lists.
\<close>

record entity =
  Id :: "int js"
  Name :: "string js"

text \<open>The \<open>filters\<close> argument of \<open>getWebsiteUrlActivity\<close>.\<close>

record activity_filters =
  startDate :: "string js"
  endDate :: "string js"
  date :: "string js"
  addedBy :: "string js"
  searchTerm :: "string js"

definition noFilters :: activity_filters where
  "noFilters = \<lparr>startDate = Undefined, endDate = Undefined, date = Undefined,
     addedBy = Undefined, searchTerm = Undefined\<rparr>"

record lead = entity +
  website_url_c :: "string js"
  team_size_c :: "string js"
  arr_c :: "int js"
  category_c :: "string js"
  linkedin_url_c :: "string js"
  status_c :: "string js"
  funding_type_c :: "string js"
  edition_c :: "string js"
  follow_up_date_c :: "string js"
  added_by_c :: "ref js"
  created_at_c :: "string js"
  websiteUrl :: "string js"
  teamSize :: "string js"
  arr :: "int js"
  category :: "string js"
  linkedinUrl :: "string js"
  status :: "string js"
  fundingType :: "string js"
  edition :: "string js"
  followUpDate :: "string js"
  addedBy :: "ref js"
  addedByName :: "string js"
  createdAt :: "string js"

definition noLead :: lead where
  "noLead = \<lparr>Id = Undefined, Name = Undefined, website_url_c = Undefined,
     team_size_c = Undefined, arr_c = Undefined, category_c = Undefined,
     linkedin_url_c = Undefined, status_c = Undefined, funding_type_c = Undefined,
     edition_c = Undefined, follow_up_date_c = Undefined, added_by_c = Undefined,
     created_at_c = Undefined, websiteUrl = Undefined, teamSize = Undefined, arr = Undefined,
     category = Undefined, linkedinUrl = Undefined, status = Undefined,
     fundingType = Undefined, edition = Undefined, followUpDate = Undefined,
     addedBy = Undefined, addedByName = Undefined, createdAt = Undefined\<rparr>"

record sales_rep = entity +
  leads_contacted_c :: "int js"
  meetings_booked_c :: "int js"
  deals_closed_c :: "int js"
  total_revenue_c :: "int js"
  name :: "string js"
  leadsContacted :: "int js"
  meetingsBooked :: "int js"
  dealsClosed :: "int js"
  totalRevenue :: "int js"

definition noRep :: sales_rep where
  "noRep = \<lparr>Id = Undefined, Name = Undefined, leads_contacted_c = Undefined,
     meetings_booked_c = Undefined, deals_closed_c = Undefined, total_revenue_c = Undefined,
     name = Undefined, leadsContacted = Undefined, meetingsBooked = Undefined,
     dealsClosed = Undefined, totalRevenue = Undefined\<rparr>"

text \<open>The value of \<open>getWebsiteUrlActivity\<close>.\<close>

record activity_summary =
  totalUrls :: nat
  totalArr :: int
  byStatus :: "nat obj"
  byCategory :: "nat obj"

record activity_result =
  data :: "lead list"
  summary :: activity_summary

subsection \<open>The envelope \<open>{success, data | results, message}\<close>\<close>

text \<open>
  \<open>data\<close> and \<open>results\<close> are \<open>None\<close> when the envelope has none (or \<open>null\<close>); a missing
  \<open>message\<close> is the empty string.
\<close>

record ('d, 'r) response =
  success :: bool
  data :: "'d option"
  results :: "'r list option"
  message :: string

type_synonym 'a fetch_response = "('a list, unit) response"
type_synonym 'a get_response = "('a, unit) response"
type_synonym 'a result = "('a, unit) response"
type_synonym 'a mutation_response = "(unit, 'a result) response"

subsection \<open>Queries\<close>

datatype operator = EqualTo | NotEqualTo | GreaterThanOrEqualTo | LessThan | LessThanOrEqualTo
  | Contains

datatype qvalue = QStr string | QNum num | QNull | QUndefined

fun qS :: "string js \<Rightarrow> qvalue" where
  "qS (Val s) = QStr s"
| "qS Null = QNull"
| "qS Undefined = QUndefined"

record condition =
  FieldName :: string
  Operator :: operator
  Values :: "qvalue list"

record params =
  fieldList :: "string list"  \<comment> \<open>the property \<open>fields\<close>\<close>
  whereFilters :: "condition list option"  \<comment> \<open>the property \<open>where\<close>\<close>
  orderBy :: "(string \<times> string) list option"

subsection \<open>Errors, the console, the client\<close>

datatype error = Error string | TypeError | RangeError

text \<open>\<open>error.message\<close>; the text of an error of the runtime is the engine's.\<close>

fun errMessage :: "error \<Rightarrow> string" where
  "errMessage (Error m) = m"
| "errMessage TypeError = ''TypeError''"
| "errMessage RangeError = ''Invalid time value''"

datatype event =
    ConsoleError string string
  | FetchRecords string params
  | GetRecordById string int params
  | CreateRecord string "lead list"
  | UpdateRecord string "lead list"
  | DeleteRecord string "int list"

text \<open>
  An operation yields the events it caused, in order, and either the error it threw or
  its value.
\<close>

type_synonym 'a io = "event list \<times> (error + 'a)"

definition return :: "'a \<Rightarrow> 'a io" where
  "return x = ([], Inr x)"

definition throw :: "error \<Rightarrow> 'a io" where
  "throw e = ([], Inl e)"

definition bind :: "'a io \<Rightarrow> ('a \<Rightarrow> 'b io) \<Rightarrow> 'b io" where
  "bind m f =
     (case m of
        (t, Inl e) \<Rightarrow> (t, Inl e)
      | (t, Inr x) \<Rightarrow> (case f x of (t', r) \<Rightarrow> (t @ t', r)))"

text \<open>\<open>try { m } catch (error) { h error }\<close>.\<close>

definition tryCatch :: "'a io \<Rightarrow> (error \<Rightarrow> 'a io) \<Rightarrow> 'a io" where
  "tryCatch m h =
     (case m of
        (t, Inl e) \<Rightarrow> (case h e of (t', r) \<Rightarrow> (t @ t', r))
      | (t, Inr x) \<Rightarrow> (t, Inr x))"

definition console_error :: "string \<Rightarrow> string \<Rightarrow> unit io" where
  "console_error label m = ([ConsoleError label m], Inr ())"

text \<open>
  The client answers a call with an envelope, or the call is rejected with an error.
  The answer is a function of the call: the store does not change while one operation
  runs. The SDK is loaded, so \<open>getApperClient\<close> returns.
\<close>

record client =
  fetchLeads :: "params \<Rightarrow> error + lead fetch_response"
  fetchSalesReps :: "params \<Rightarrow> error + sales_rep fetch_response"
  getLead :: "int \<Rightarrow> params \<Rightarrow> error + lead get_response"
  createLeads :: "lead list \<Rightarrow> error + lead mutation_response"
  updateLeads :: "lead list \<Rightarrow> error + lead mutation_response"
  deleteLeads :: "int list \<Rightarrow> error + unit mutation_response"

text \<open>\<open>await apperClient.fetchRecords('lead_c', p)\<close> and the other calls.\<close>

definition fetchRecords_lead_c :: "client \<Rightarrow> params \<Rightarrow> lead fetch_response io" where
  "fetchRecords_lead_c c p = ([FetchRecords ''lead_c'' p], fetchLeads c p)"

definition fetchRecords_sales_rep_c :: "client \<Rightarrow> params \<Rightarrow> sales_rep fetch_response io" where
  "fetchRecords_sales_rep_c c p = ([FetchRecords ''sales_rep_c'' p], fetchSalesReps c p)"

definition getRecordById_lead_c :: "client \<Rightarrow> int \<Rightarrow> params \<Rightarrow> lead get_response io" where
  "getRecordById_lead_c c i p = ([GetRecordById ''lead_c'' i p], getLead c i p)"

definition createRecord_lead_c :: "client \<Rightarrow> lead list \<Rightarrow> lead mutation_response io" where
  "createRecord_lead_c c rs = ([CreateRecord ''lead_c'' rs], createLeads c rs)"

definition updateRecord_lead_c :: "client \<Rightarrow> lead list \<Rightarrow> lead mutation_response io" where
  "updateRecord_lead_c c rs = ([UpdateRecord ''lead_c'' rs], updateLeads c rs)"

definition deleteRecord_lead_c :: "client \<Rightarrow> int list \<Rightarrow> unit mutation_response io" where
  "deleteRecord_lead_c c ids = ([DeleteRecord ''lead_c'' ids], deleteLeads c ids)"

text \<open>\<open>fields: [{ field: { Name: f } }, ...]\<close> is the list of the names.\<close>

definition leadFields :: "string list" where
  "leadFields = [''Name'', ''website_url_c'', ''team_size_c'', ''arr_c'', ''category_c'',
     ''linkedin_url_c'', ''status_c'', ''funding_type_c'', ''edition_c'', ''follow_up_date_c'',
     ''added_by_c'', ''created_at_c'']"


section \<open>leadsService\<close>

definition normalizeUrl :: "string js \<Rightarrow> string" where
  "normalizeUrl url =
     (case url of
        Val u \<Rightarrow> (if u = [] then [] else stripTrailingSlash (toLowerCase u))
      | _ \<Rightarrow> [])"

text \<open>The object literal that \<open>getLeads\<close>, \<open>getLeadById\<close> and \<open>updateLead\<close> build from a record.\<close>

definition transformLead :: "host \<Rightarrow> lead \<Rightarrow> lead" where
  "transformLead h l = noLead
     \<lparr>Id := Id l,
      websiteUrl := orS (website_url_c l) (Val []),
      teamSize := orS (team_size_c l) (Val ''1-3''),
      arr := orN (arr_c l) (Val 0),
      category := orS (category_c l) (Val []),
      linkedinUrl := orS (linkedin_url_c l) (Val []),
      status := orS (status_c l) (Val ''Keep an Eye''),
      fundingType := orS (funding_type_c l) (Val ''Bootstrapped''),
      edition := orS (edition_c l) (Val ''Select Edition''),
      followUpDate := orS (follow_up_date_c l) Null,
      addedBy := idOrSelf (added_by_c l),
      addedByName := orS (optName (added_by_c l)) (Val ''Unknown''),
      createdAt := orS (created_at_c l) (Val (toISOString (now h)))\<rparr>"

record leads_result =
  leads :: "lead list"
  deduplicationResult :: "unit js"

definition getLeads_params :: params where
  "getLeads_params = \<lparr>fieldList = leadFields, whereFilters = None,
     orderBy = Some [(''created_at_c'', ''DESC'')]\<rparr>"

text \<open>\<open>response.data || []\<close>.\<close>

definition dataOrEmpty :: "('a list, 'r) response \<Rightarrow> 'a list" where
  "dataOrEmpty response = (case data response of Some xs \<Rightarrow> xs | None \<Rightarrow> [])"

definition getLeads :: "host \<Rightarrow> client \<Rightarrow> leads_result io" where
  "getLeads h c =
     tryCatch
       (bind (fetchRecords_lead_c c getLeads_params) (\<lambda>response.
          if \<not> success response then
            bind (console_error ''Failed to fetch leads:'' (message response)) (\<lambda>_.
            return \<lparr>leads = [], deduplicationResult = Null\<rparr>)
          else
            return \<lparr>leads = map (transformLead h) (dataOrEmpty response),
                    deduplicationResult = Null\<rparr>))
       (\<lambda>error.
          bind (console_error ''Error fetching leads:'' (errMessage error)) (\<lambda>_.
          return \<lparr>leads = [], deduplicationResult = Null\<rparr>))"

definition getLeadById_params :: params where
  "getLeadById_params = \<lparr>fieldList = leadFields, whereFilters = None, orderBy = None\<rparr>"

definition getLeadById :: "host \<Rightarrow> client \<Rightarrow> int \<Rightarrow> lead io" where
  "getLeadById h c i =
     tryCatch
       (bind (getRecordById_lead_c c i getLeadById_params) (\<lambda>response.
          if \<not> success response then throw (Error ''Lead not found'')
          else (case data response of
                  None \<Rightarrow> throw TypeError  \<comment> \<open>\<open>lead.Id\<close> of \<open>undefined\<close>\<close>
                | Some l \<Rightarrow> return (transformLead h l))))
       (\<lambda>error.
          bind (console_error ''Error fetching lead by ID:'' (errMessage error)) (\<lambda>_.
          throw (Error ''Lead not found'')))"

subsection \<open>createLead\<close>

definition duplicateQuery :: "lead \<Rightarrow> params" where
  "duplicateQuery leadData =
     \<lparr>fieldList = [''website_url_c''],
      whereFilters = Some [\<lparr>FieldName = ''website_url_c'', Operator = EqualTo,
                            Values = [qS (websiteUrl leadData)]\<rparr>],
      orderBy = None\<rparr>"

definition alreadyExists :: "string js \<Rightarrow> string" where
  "alreadyExists url =
     ''A lead with website URL '' @ [CHR 0x22] @ toKey url @ [CHR 0x22] @ '' already exists''"

text \<open>\<open>s.replace(/^https?:\/\//, '').replace(/\/$/, '')\<close> on the URL, a string here.\<close>

definition recordName :: "string js \<Rightarrow> string js" where
  "recordName url = (case url of Val u \<Rightarrow> Val (stripTrailingSlash (stripScheme u)) | v \<Rightarrow> v)"

definition createLead_recordData :: "host \<Rightarrow> lead \<Rightarrow> lead" where
  "createLead_recordData h leadData = noLead
     \<lparr>Name := recordName (websiteUrl leadData),
      website_url_c := websiteUrl leadData,
      team_size_c := orS (teamSize leadData) (Val ''1-3''),
      arr_c := orN (arr leadData) (Val 0),
      category_c := orS (category leadData) (Val ''Other''),
      linkedin_url_c := orS (linkedinUrl leadData) (Val []),
      status_c := orS (status leadData) (Val ''Keep an Eye''),
      funding_type_c := orS (fundingType leadData) (Val ''Bootstrapped''),
      edition_c := orS (edition leadData) (Val ''Select Edition''),
      follow_up_date_c := orS (followUpDate leadData) Null,
      added_by_c := orR (addedBy leadData) Null,
      created_at_c := Val (toISOString (now h))\<rparr>"

definition createdLead_transform :: "host \<Rightarrow> lead \<Rightarrow> lead \<Rightarrow> lead" where
  "createdLead_transform h leadData createdLead = noLead
     \<lparr>Id := Id createdLead,
      websiteUrl := orS (website_url_c createdLead) (websiteUrl leadData),
      teamSize := orS (team_size_c createdLead) (teamSize leadData),
      arr := orN (arr_c createdLead) (arr leadData),
      category := orS (category_c createdLead) (category leadData),
      linkedinUrl := orS (linkedin_url_c createdLead) (linkedinUrl leadData),
      status := orS (status_c createdLead) (status leadData),
      fundingType := orS (funding_type_c createdLead) (fundingType leadData),
      edition := orS (edition_c createdLead) (edition leadData),
      followUpDate := orS (follow_up_date_c createdLead) (followUpDate leadData),
      addedBy := idOrSelf (added_by_c createdLead),
      addedByName := orS (optName (added_by_c createdLead)) (Val ''Unknown''),
      createdAt := orS (created_at_c createdLead) (Val (toISOString (now h)))\<rparr>"

text \<open>\<open>m || d\<close> on the message of an envelope.\<close>

definition messageOr :: "string \<Rightarrow> string \<Rightarrow> string" where
  "messageOr m d = (if m \<noteq> [] then m else d)"

text \<open>
  What the mutations do with the first result of an answer: \<open>onData\<close> builds the value
  from \<open>result.data\<close>.
\<close>

definition firstResult ::
  "('d, 'a result) response \<Rightarrow> string \<Rightarrow> ('a option \<Rightarrow> 'b io) \<Rightarrow> 'b io \<Rightarrow> 'b io" where
  "firstResult response failed onData otherwise =
     (case results response of
        Some (result # rest) \<Rightarrow>
          (if success result then onData (data result)
           else throw (Error (messageOr (message result) failed)))
      | _ \<Rightarrow> otherwise)"

text \<open>\<open>!leadData.websiteUrl || !leadData.websiteUrl.trim()\<close>.\<close>

definition urlRequired :: "lead \<Rightarrow> bool" where
  "urlRequired leadData =
     (\<not> truthyS (websiteUrl leadData)
      \<or> (case websiteUrl leadData of Val u \<Rightarrow> trim u = [] | _ \<Rightarrow> True))"

text \<open>
  \<open>existingResponse.success && existingResponse.data && existingResponse.data.length > 0\<close>.
\<close>

definition duplicateFound :: "lead fetch_response \<Rightarrow> bool" where
  "duplicateFound existingResponse =
     (success existingResponse
      \<and> (case data existingResponse of Some xs \<Rightarrow> length xs > 0 | None \<Rightarrow> False))"

definition createLead :: "host \<Rightarrow> client \<Rightarrow> lead \<Rightarrow> lead io" where
  "createLead h c leadData =
     tryCatch
       (if urlRequired leadData
        then throw (Error ''Website URL is required'')
        else
          let normalizedUrl = normalizeUrl (websiteUrl leadData) in
          bind (fetchRecords_lead_c c (duplicateQuery leadData)) (\<lambda>existingResponse.
            if duplicateFound existingResponse
            then throw (Error (alreadyExists (websiteUrl leadData)))
            else
              bind (createRecord_lead_c c [createLead_recordData h leadData]) (\<lambda>response.
                if \<not> success response then
                  bind (console_error ''Failed to create lead:'' (message response)) (\<lambda>_.
                  throw (Error (message response)))
                else
                  firstResult response ''Failed to create lead''
                    (\<lambda>d. case d of
                           None \<Rightarrow> throw TypeError
                         | Some createdLead \<Rightarrow>
                             return (createdLead_transform h leadData createdLead))
                    (throw (Error ''No response data received'')))))
       (\<lambda>error.
          bind (console_error ''Error creating lead:'' (errMessage error)) (\<lambda>_.
          throw error))"

subsection \<open>updateLead, deleteLead\<close>

definition updateLead_recordData :: "int \<Rightarrow> lead \<Rightarrow> lead" where
  "updateLead_recordData i updates =
     (let r0 = noLead\<lparr>Id := Val i\<rparr>;
          r1 = (if websiteUrl updates \<noteq> Undefined
                then r0\<lparr>website_url_c := websiteUrl updates\<rparr> else r0);
          r2 = (if teamSize updates \<noteq> Undefined
                then r1\<lparr>team_size_c := teamSize updates\<rparr> else r1);
          r3 = (if arr updates \<noteq> Undefined then r2\<lparr>arr_c := arr updates\<rparr> else r2);
          r4 = (if category updates \<noteq> Undefined
                then r3\<lparr>category_c := category updates\<rparr> else r3);
          r5 = (if linkedinUrl updates \<noteq> Undefined
                then r4\<lparr>linkedin_url_c := linkedinUrl updates\<rparr> else r4);
          r6 = (if status updates \<noteq> Undefined then r5\<lparr>status_c := status updates\<rparr> else r5);
          r7 = (if fundingType updates \<noteq> Undefined
                then r6\<lparr>funding_type_c := fundingType updates\<rparr> else r6);
          r8 = (if edition updates \<noteq> Undefined
                then r7\<lparr>edition_c := edition updates\<rparr> else r7);
          r9 = (if followUpDate updates \<noteq> Undefined
                then r8\<lparr>follow_up_date_c := followUpDate updates\<rparr> else r8)
      in (if addedBy updates \<noteq> Undefined then r9\<lparr>added_by_c := addedBy updates\<rparr> else r9))"

definition updateLead :: "host \<Rightarrow> client \<Rightarrow> int \<Rightarrow> lead \<Rightarrow> lead io" where
  "updateLead h c i updates =
     tryCatch
       (bind (updateRecord_lead_c c [updateLead_recordData i updates]) (\<lambda>response.
          if \<not> success response then
            bind (console_error ''Failed to update lead:'' (message response)) (\<lambda>_.
            throw (Error (message response)))
          else
            firstResult response ''Failed to update lead''
              (\<lambda>d. case d of
                     None \<Rightarrow> throw TypeError
                   | Some updatedLead \<Rightarrow> return (transformLead h updatedLead))
              (throw (Error ''No response data received''))))
       (\<lambda>error.
          bind (console_error ''Error updating lead:'' (errMessage error)) (\<lambda>_.
          throw error))"

text \<open>The object \<open>{ success: true }\<close>.\<close>

definition successTrue :: "(unit, unit) response" where
  "successTrue = \<lparr>success = True, data = None, results = None, message = []\<rparr>"

definition deleteLead :: "client \<Rightarrow> int \<Rightarrow> (unit, unit) response io" where
  "deleteLead c i =
     tryCatch
       (bind (deleteRecord_lead_c c [i]) (\<lambda>response.
          if \<not> success response then
            bind (console_error ''Failed to delete lead:'' (message response)) (\<lambda>_.
            throw (Error (message response)))
          else
            firstResult response ''Failed to delete lead''
              (\<lambda>d. return successTrue)
              (return successTrue)))
       (\<lambda>error.
          bind (console_error ''Error deleting lead:'' (errMessage error)) (\<lambda>_.
          throw error))"


subsection \<open>getDailyLeadsReport\<close>

record rep_report =
  salesRep :: "string js"
  salesRepId :: "int js"
  leads :: "lead list"
  leadCount :: nat
  lowPerformance :: bool

definition dailyReport_leadParams :: "host \<Rightarrow> params" where
  "dailyReport_leadParams h =
     (let today = isoDate (now h);
          tomorrow = plusLocalDays h (now h) 1
      in \<lparr>fieldList = [''Name'', ''website_url_c'', ''added_by_c'', ''created_at_c''],
          whereFilters = Some
            [\<lparr>FieldName = ''created_at_c'', Operator = GreaterThanOrEqualTo,
              Values = [QStr (today @ ''T00:00:00Z'')]\<rparr>,
             \<lparr>FieldName = ''created_at_c'', Operator = LessThan,
              Values = [QStr (isoDate tomorrow @ ''T00:00:00Z'')]\<rparr>],
          orderBy = None\<rparr>)"

definition dailyReport_repParams :: params where
  "dailyReport_repParams = \<lparr>fieldList = [''Name''], whereFilters = None, orderBy = None\<rparr>"

text \<open>\<open>response.success ? response.data : []\<close>; \<open>None\<close> is \<open>undefined\<close>.\<close>

definition dataIfSuccess :: "('a list, 'r) response \<Rightarrow> 'a list option" where
  "dataIfSuccess response = (if success response then data response else Some [])"

definition emptyReport :: "sales_rep \<Rightarrow> rep_report" where
  "emptyReport rep = \<lparr>salesRep = Name rep, salesRepId = Id rep, leads = [], leadCount = 0,
     lowPerformance = False\<rparr>"

definition unknownReport :: rep_report where
  "unknownReport = \<lparr>salesRep = Val ''Unknown'', salesRepId = Null, leads = [], leadCount = 0,
     lowPerformance = False\<rparr>"

text \<open>\<open>salesReps.forEach(rep => { reportData[rep.Name] = {...} })\<close>.\<close>

definition initReport :: "sales_rep list \<Rightarrow> rep_report obj" where
  "initReport salesReps =
     foldl (\<lambda>reportData rep. setProp (toKey (Name rep)) (emptyReport rep) reportData) []
       salesReps"

definition reportItem :: "lead \<Rightarrow> lead" where
  "reportItem l = noLead\<lparr>Id := Id l, websiteUrl := website_url_c l, createdAt := created_at_c l\<rparr>"

text \<open>\<open>reportData[k].leads.push(item)\<close>.\<close>

definition pushLead :: "string \<Rightarrow> lead \<Rightarrow> rep_report obj \<Rightarrow> rep_report obj" where
  "pushLead k item reportData =
     map (\<lambda>(k', e). if k' = k then (k', e\<lparr>leads := leads e @ [item]\<rparr>) else (k', e)) reportData"

definition repNameOf :: "lead \<Rightarrow> string js" where
  "repNameOf l = orS (optName (added_by_c l)) (Val ''Unknown'')"

text \<open>The body of \<open>todaysLeads.forEach\<close>.\<close>

definition addLead :: "rep_report obj \<Rightarrow> lead \<Rightarrow> rep_report obj" where
  "addLead reportData l =
     (let repName = repNameOf l in
      if getProp reportData (toKey repName) \<noteq> None
      then pushLead (toKey repName) (reportItem l) reportData
      else if repName = Val ''Unknown''
      then pushLead ''Unknown'' (reportItem l)
             (if getProp reportData ''Unknown'' = None
              then setProp ''Unknown'' unknownReport reportData
              else reportData)
      else reportData)"

definition countLeads :: "rep_report \<Rightarrow> rep_report" where
  "countLeads repData =
     repData\<lparr>leadCount := length (leads repData), lowPerformance := length (leads repData) < 5\<rparr>"

definition buildReport :: "sales_rep list \<Rightarrow> lead list \<Rightarrow> rep_report list" where
  "buildReport salesReps todaysLeads =
     sortDescending (\<lambda>a. length (leads a))
       (map countLeads (objectValues (foldl addLead (initReport salesReps) todaysLeads)))"

definition getDailyLeadsReport :: "host \<Rightarrow> client \<Rightarrow> rep_report list io" where
  "getDailyLeadsReport h c =
     tryCatch
       (bind (fetchRecords_lead_c c (dailyReport_leadParams h)) (\<lambda>leadsResponse.
        bind (fetchRecords_sales_rep_c c dailyReport_repParams) (\<lambda>salesRepsResponse.
          case dataIfSuccess salesRepsResponse of
            None \<Rightarrow> throw TypeError
          | Some salesReps \<Rightarrow>
              (case dataIfSuccess leadsResponse of
                 None \<Rightarrow> throw TypeError
               | Some todaysLeads \<Rightarrow> return (buildReport salesReps todaysLeads)))))
       (\<lambda>error.
          bind (console_error ''Error fetching daily leads report:'' (errMessage error)) (\<lambda>_.
          return []))"

subsection \<open>getPendingFollowUps\<close>

definition pendingFollowUps_params :: "host \<Rightarrow> params" where
  "pendingFollowUps_params h =
     (let sevenDaysFromNow = plusLocalDays h (now h) 7
      in \<lparr>fieldList = [''Name'', ''website_url_c'', ''category_c'', ''follow_up_date_c'',
                       ''added_by_c''],
          whereFilters = Some
            [\<lparr>FieldName = ''follow_up_date_c'', Operator = GreaterThanOrEqualTo,
              Values = [QStr (toISOString (now h))]\<rparr>,
             \<lparr>FieldName = ''follow_up_date_c'', Operator = LessThanOrEqualTo,
              Values = [QStr (toISOString sevenDaysFromNow)]\<rparr>],
          orderBy = Some [(''follow_up_date_c'', ''ASC'')]\<rparr>)"

definition transformFollowUp :: "lead \<Rightarrow> lead" where
  "transformFollowUp l = noLead
     \<lparr>Id := Id l,
      websiteUrl := orS (website_url_c l) (Val []),
      category := orS (category_c l) (Val []),
      followUpDate := follow_up_date_c l,
      addedBy := idOrSelf (added_by_c l),
      addedByName := orS (optName (added_by_c l)) (Val ''Unknown'')\<rparr>"

definition getPendingFollowUps :: "host \<Rightarrow> client \<Rightarrow> lead list io" where
  "getPendingFollowUps h c =
     tryCatch
       (bind (fetchRecords_lead_c c (pendingFollowUps_params h)) (\<lambda>response.
          if \<not> success response then
            bind (console_error ''Failed to fetch pending follow-ups:'' (message response)) (\<lambda>_.
            return [])
          else return (map transformFollowUp (dataOrEmpty response))))
       (\<lambda>error.
          bind (console_error ''Error fetching pending follow-ups:'' (errMessage error)) (\<lambda>_.
          return []))"

subsection \<open>getFreshLeadsOnly\<close>

text \<open>\<open>new Date(lead.createdAt || lead.created_at_c).toDateString() === today.toDateString()\<close>.\<close>

definition createdToday :: "host \<Rightarrow> lead \<Rightarrow> bool" where
  "createdToday h l =
     (dateString h (newDate h (orS (createdAt l) (created_at_c l))) = dateString h (Some (now h)))"

definition freshQuery :: "host \<Rightarrow> lead \<Rightarrow> params" where
  "freshQuery h l =
     \<lparr>fieldList = [''created_at_c''],
      whereFilters = Some
        [\<lparr>FieldName = ''website_url_c'', Operator = EqualTo,
          Values = [qS (orS (websiteUrl l) (website_url_c l))]\<rparr>,
         \<lparr>FieldName = ''created_at_c'', Operator = LessThan,
          Values = [QStr (isoDate (now h) @ ''T00:00:00Z'')]\<rparr>],
      orderBy = None\<rparr>"

text \<open>
  \<open>!existingResponse.success || !existingResponse.data || existingResponse.data.length === 0\<close>.
\<close>

definition noPrevious :: "lead fetch_response \<Rightarrow> bool" where
  "noPrevious existingResponse =
     (\<not> success existingResponse
      \<or> (case data existingResponse of None \<Rightarrow> True | Some xs \<Rightarrow> length xs = 0))"

text \<open>The loop over \<open>todaysLeads\<close>; the value is \<open>freshLeads\<close>.\<close>

fun freshLoop :: "host \<Rightarrow> client \<Rightarrow> lead list \<Rightarrow> lead list io" where
  "freshLoop h c [] = return []"
| "freshLoop h c (l # rest) =
     (let normalizedUrl = normalizeUrl (orS (websiteUrl l) (website_url_c l)) in
      bind (fetchRecords_lead_c c (freshQuery h l)) (\<lambda>existingResponse.
      bind (freshLoop h c rest) (\<lambda>freshLeads.
        return (if noPrevious existingResponse then l # freshLeads else freshLeads))))"

definition getFreshLeadsOnly :: "host \<Rightarrow> client \<Rightarrow> lead list \<Rightarrow> lead list io" where
  "getFreshLeadsOnly h c leadsArray =
     tryCatch
       (freshLoop h c (filter (createdToday h) leadsArray))
       (\<lambda>error.
          bind (console_error ''Error filtering fresh leads:'' (errMessage error)) (\<lambda>_.
          return (filter (createdToday h) leadsArray)))"

section \<open>salesRepService\<close>

definition repFields :: "string list" where
  "repFields = [''Name'', ''leads_contacted_c'', ''meetings_booked_c'', ''deals_closed_c'',
     ''total_revenue_c'']"

definition getSalesReps_params :: params where
  "getSalesReps_params = \<lparr>fieldList = repFields, whereFilters = None,
     orderBy = Some [(''Name'', ''ASC'')]\<rparr>"

definition transformRep :: "sales_rep \<Rightarrow> sales_rep" where
  "transformRep rep = noRep
     \<lparr>Id := Id rep,
      name := Name rep,
      leadsContacted := orN (leads_contacted_c rep) (Val 0),
      meetingsBooked := orN (meetings_booked_c rep) (Val 0),
      dealsClosed := orN (deals_closed_c rep) (Val 0),
      totalRevenue := orN (total_revenue_c rep) (Val 0)\<rparr>"

definition getSalesReps :: "client \<Rightarrow> sales_rep list io" where
  "getSalesReps c =
     tryCatch
       (bind (fetchRecords_sales_rep_c c getSalesReps_params) (\<lambda>response.
          if \<not> success response then
            bind (console_error ''Failed to fetch sales reps:'' (message response)) (\<lambda>_.
            return [])
          else return (map transformRep (dataOrEmpty response))))
       (\<lambda>error.
          bind (console_error ''Error fetching sales reps:'' (errMessage error)) (\<lambda>_.
          return []))"

section \<open>analyticsService\<close>

text \<open>\<open>getDateRange(period)\<close>: the pair \<open>(start, end)\<close>.\<close>

definition getDateRange :: "host \<Rightarrow> string \<Rightarrow> int \<times> int" where
  "getDateRange h period =
     (let today = localMidnight h (now h) in
      if period = ''today'' then (today, today + 24 * 60 * 60 * 1000)
      else if period = ''yesterday'' then (today - 24 * 60 * 60 * 1000, today)
      else if period = ''week'' then (today - 7 * 24 * 60 * 60 * 1000, today + 24 * 60 * 60 * 1000)
      else if period = ''month''
        then (today - 30 * 24 * 60 * 60 * 1000, today + 24 * 60 * 60 * 1000)
      else (0, now h))"

text \<open>The filter on the user, pushed when \<open>userId !== 'all'\<close>.\<close>

definition userFilter :: "string \<Rightarrow> condition list" where
  "userFilter userId =
     (if userId \<noteq> ''all''
      then [\<lparr>FieldName = ''added_by_c'', Operator = EqualTo, Values = [QNum (parseInt userId)]\<rparr>]
      else [])"

subsection \<open>getDailyLeadsChart\<close>

record chart_row =
  date :: string
  count :: nat
  formattedDate :: string









subsection \<open>getLeadsMetrics\<close>

record period_metric =
  count :: nat
  trend :: "int js"
  label :: string

record period_metrics =
  today :: period_metric
  yesterday :: period_metric
  week :: period_metric
  month :: period_metric

record metrics_result =
  metrics :: period_metrics
  statusDistribution :: "nat obj"
  categoryDistribution :: "nat obj"
  totalLeads :: nat

definition metrics_params :: "host \<Rightarrow> string \<Rightarrow> string \<Rightarrow> params" where
  "metrics_params h userId period =
     \<lparr>fieldList = [''status_c'', ''category_c'', ''created_at_c''],
      whereFilters = Some
        (userFilter userId
         @ (if period \<noteq> ''all''
            then (case getDateRange h period of (start, end) \<Rightarrow>
                    [\<lparr>FieldName = ''created_at_c'', Operator = GreaterThanOrEqualTo,
                      Values = [QStr (toISOString start)]\<rparr>,
                     \<lparr>FieldName = ''created_at_c'', Operator = LessThan,
                      Values = [QStr (toISOString end)]\<rparr>])
            else [])),
      orderBy = None\<rparr>"

text \<open>One iteration of \<open>for (const period of periods)\<close>: the value is \<open>results[period]\<close>.\<close>

definition fetchPeriod :: "host \<Rightarrow> client \<Rightarrow> string \<Rightarrow> string \<Rightarrow> lead list option io" where
  "fetchPeriod h c userId period =
     bind (fetchRecords_lead_c c (metrics_params h userId period)) (\<lambda>response.
       return (dataIfSuccess response))"

text \<open>\<open>xs.length\<close>, a \<open>TypeError\<close> when \<open>xs\<close> is \<open>undefined\<close>.\<close>

definition lengthOf :: "'a list option \<Rightarrow> nat io" where
  "lengthOf xs = (case xs of None \<Rightarrow> throw TypeError | Some ys \<Rightarrow> return (length ys))"

text \<open>\<open>yesterdayCount === 0 ? 100 : Math.round(((todayCount - yesterdayCount) / yesterdayCount) * 100)\<close>.\<close>

definition todayTrend :: "nat \<Rightarrow> nat \<Rightarrow> int" where
  "todayTrend todayCount yesterdayCount =
     (if yesterdayCount = 0 then 100
      else roundPercent (int todayCount - int yesterdayCount) (int yesterdayCount))"

text \<open>\<open>acc[k] = (acc[k] || 0) + 1\<close>.\<close>

definition increment :: "string \<Rightarrow> nat obj \<Rightarrow> nat obj" where
  "increment k acc = setProp k ((case getProp acc k of None \<Rightarrow> 0 | Some n \<Rightarrow> n) + 1) acc"

definition statusCounts :: "lead list \<Rightarrow> nat obj" where
  "statusCounts ls =
     foldl (\<lambda>acc l. increment (toKey (orS (status_c l) (Val ''Unknown''))) acc) [] ls"

definition categoryCounts :: "lead list \<Rightarrow> nat obj" where
  "categoryCounts ls =
     foldl (\<lambda>acc l. increment (toKey (orS (category_c l) (Val ''Unknown''))) acc) [] ls"


definition getLeadsMetrics_try :: "host \<Rightarrow> client \<Rightarrow> string \<Rightarrow> metrics_result io" where
  "getLeadsMetrics_try h c userId =
     bind (fetchPeriod h c userId ''today'') (\<lambda>results_today.
     bind (fetchPeriod h c userId ''yesterday'') (\<lambda>results_yesterday.
     bind (fetchPeriod h c userId ''week'') (\<lambda>results_week.
     bind (fetchPeriod h c userId ''month'') (\<lambda>results_month.
     bind (fetchPeriod h c userId ''all'') (\<lambda>results_all.
     bind (lengthOf results_today) (\<lambda>todayCount.
     bind (lengthOf results_yesterday) (\<lambda>yesterdayCount.
     bind (lengthOf results_week) (\<lambda>weekCount.
     bind (lengthOf results_month) (\<lambda>monthCount.
       case results_all of
         None \<Rightarrow> throw TypeError  \<comment> \<open>\<open>results.all.reduce\<close>\<close>
       | Some all \<Rightarrow>
           return
             \<lparr>metrics =
                \<lparr>today = \<lparr>count = todayCount, trend = Val (todayTrend todayCount yesterdayCount),
                           label = ''Today''\<rparr>,
                 yesterday = \<lparr>count = yesterdayCount, trend = Undefined, label = ''Yesterday''\<rparr>,
                 week = \<lparr>count = weekCount, trend = Undefined, label = ''This Week''\<rparr>,
                 month = \<lparr>count = monthCount, trend = Undefined, label = ''This Month''\<rparr>\<rparr>,
              statusDistribution = statusCounts all,
              categoryDistribution = categoryCounts all,
              totalLeads = length all\<rparr>)))))))))"



subsection \<open>getUserPerformance\<close>

record user_stats = sales_rep +
  totalLeads :: nat
  todayLeads :: nat
  weekLeads :: nat
  monthLeads :: nat
  conversionRate :: num

definition performance_leadParams :: params where
  "performance_leadParams = \<lparr>fieldList = [''added_by_c'', ''created_at_c''],
     whereFilters = None, orderBy = None\<rparr>"

definition performance_repParams :: params where
  "performance_repParams = \<lparr>fieldList = repFields, whereFilters = None, orderBy = None\<rparr>"

text \<open>
  \<open>rep.meetings_booked_c > 0 ? Math.round((rep.deals_closed_c / rep.meetings_booked_c) * 100) : 0\<close>:
  \<open>null\<close> counts as 0 and \<open>undefined\<close> as \<open>NaN\<close> in the comparison and in the division.
\<close>

definition conversionRateOf :: "sales_rep \<Rightarrow> num" where
  "conversionRateOf rep =
     (case meetings_booked_c rep of
        Val m \<Rightarrow>
          (if m > 0
           then (case deals_closed_c rep of
                   Val d \<Rightarrow> Fin (roundPercent d m)
                 | Null \<Rightarrow> Fin 0
                 | Undefined \<Rightarrow> NaN)
           else Fin 0)
      | _ \<Rightarrow> Fin 0)"

text \<open>The function mapped over \<open>salesReps\<close>; \<open>fetched\<close> is the array \<open>leads\<close>.\<close>

definition userStat :: "host \<Rightarrow> lead list \<Rightarrow> sales_rep \<Rightarrow> user_stats" where
  "userStat h fetched rep =
     (let userLeads = filter (\<lambda>l. strictEqId (idOrSelf (added_by_c l)) (Id rep)) fetched;
          today0 = localMidnight h (now h);
          weekStart = today0 - 7 * 24 * 60 * 60 * 1000;
          monthStart = today0 - 30 * 24 * 60 * 60 * 1000;
          todayLeads0 = filter (\<lambda>l. dateGe (newDate h (created_at_c l)) today0) userLeads;
          weekLeads0 = filter (\<lambda>l. dateGe (newDate h (created_at_c l)) weekStart) userLeads;
          monthLeads0 = filter (\<lambda>l. dateGe (newDate h (created_at_c l)) monthStart) userLeads
      in \<lparr>Id = Id rep, Name = Undefined,
          leads_contacted_c = Undefined, meetings_booked_c = Undefined,
          deals_closed_c = Undefined, total_revenue_c = Undefined,
          name = Name rep,
          leadsContacted = orN (leads_contacted_c rep) (Val 0),
          meetingsBooked = orN (meetings_booked_c rep) (Val 0),
          dealsClosed = orN (deals_closed_c rep) (Val 0),
          totalRevenue = orN (total_revenue_c rep) (Val 0),
          totalLeads = length userLeads,
          todayLeads = length todayLeads0,
          weekLeads = length weekLeads0,
          monthLeads = length monthLeads0,
          conversionRate = conversionRateOf rep\<rparr>)"

definition getUserPerformance :: "host \<Rightarrow> client \<Rightarrow> user_stats list io" where
  "getUserPerformance h c =
     tryCatch
       (bind (fetchRecords_sales_rep_c c performance_repParams) (\<lambda>salesRepsResponse.
          if \<not> success salesRepsResponse then
            bind (console_error ''Failed to fetch sales reps:'' (message salesRepsResponse)) (\<lambda>_.
            return [])
          else
            (let salesReps = dataOrEmpty salesRepsResponse in
             bind (fetchRecords_lead_c c performance_leadParams) (\<lambda>leadsResponse.
               case dataIfSuccess leadsResponse of
                 None \<Rightarrow>
                   \<comment> \<open>\<open>leads.filter\<close> of \<open>undefined\<close>, in the first call of the mapped function\<close>
                   (if salesReps = [] then return [] else throw TypeError)
               | Some fetched \<Rightarrow>
                   return (sortDescending totalLeads (map (userStat h fetched) salesReps))))))
       (\<lambda>error.
          bind (console_error ''Error fetching user performance:'' (errMessage error)) (\<lambda>_.
          return []))"

section \<open>The report service (website URL activity)\<close>















section \<open>A reference record store and a reference host\<close>

text \<open>
  The record store is external to the services. To state what a service does when the
  store holds given records, and to run the services on examples, this is a store that
  answers a query with the records that satisfy every condition of \<open>where\<close>: \<open>EqualTo\<close>
  is equality, the comparisons are the order of numbers and the lexicographic order of
  strings (which is the order in time of ISO timestamps), \<open>Contains\<close> is the substring
  test. The selection of fields and the order of the answer are not modelled.
\<close>

definition isSubstring :: "string \<Rightarrow> string \<Rightarrow> bool" where
  "isSubstring a b = list_ex (\<lambda>n. take (length a) (drop n b) = a) [0..<Suc (length b)]"

fun compareValues :: "operator \<Rightarrow> qvalue \<Rightarrow> qvalue \<Rightarrow> bool" where
  "compareValues EqualTo x v = (x = v)"
| "compareValues NotEqualTo x v = (x \<noteq> v)"
| "compareValues GreaterThanOrEqualTo (QStr a) (QStr b) = (b \<le> a)"
| "compareValues LessThan (QStr a) (QStr b) = (a < b)"
| "compareValues LessThanOrEqualTo (QStr a) (QStr b) = (a \<le> b)"
| "compareValues GreaterThanOrEqualTo (QNum (Fin a)) (QNum (Fin b)) = (b \<le> a)"
| "compareValues LessThan (QNum (Fin a)) (QNum (Fin b)) = (a < b)"
| "compareValues LessThanOrEqualTo (QNum (Fin a)) (QNum (Fin b)) = (a \<le> b)"
| "compareValues Contains (QStr a) (QStr b) = isSubstring b a"
| "compareValues _ _ _ = False"

definition refNumber :: "ref js \<Rightarrow> qvalue" where
  "refNumber r =
     (case r of
        Val (RefObj (Val i) n) \<Rightarrow> QNum (Fin i)
      | Val (RefId k) \<Rightarrow> QNum (Fin k)
      | Null \<Rightarrow> QNull
      | _ \<Rightarrow> QUndefined)"

definition fieldOf :: "string \<Rightarrow> lead \<Rightarrow> qvalue" where
  "fieldOf f l =
     (if f = ''website_url_c'' then qS (website_url_c l)
      else if f = ''created_at_c'' then qS (created_at_c l)
      else if f = ''follow_up_date_c'' then qS (follow_up_date_c l)
      else if f = ''added_by_c'' then refNumber (added_by_c l)
      else QUndefined)"

definition holds :: "condition \<Rightarrow> lead \<Rightarrow> bool" where
  "holds cond l = list_ex (compareValues (Operator cond) (fieldOf (FieldName cond) l)) (Values cond)"

definition storeFetch :: "lead list \<Rightarrow> params \<Rightarrow> lead list" where
  "storeFetch store p =
     filter (\<lambda>l. list_all (\<lambda>cond. holds cond l)
                   (case whereFilters p of None \<Rightarrow> [] | Some conds \<Rightarrow> conds)) store"

definition succeeded :: "'d \<Rightarrow> ('d, 'r) response" where
  "succeeded d = \<lparr>success = True, data = Some d, results = None, message = []\<rparr>"

definition failed :: "string \<Rightarrow> ('d, 'r) response" where
  "failed m = \<lparr>success = False, data = None, results = None, message = m\<rparr>"

definition resultsOf :: "'r list \<Rightarrow> (unit, 'r) response" where
  "resultsOf rs = \<lparr>success = True, data = None, results = Some rs, message = []\<rparr>"

text \<open>The client of a store that holds the leads \<open>store\<close> and the sales reps \<open>reps\<close>.\<close>

definition storeClient :: "lead list \<Rightarrow> sales_rep list \<Rightarrow> client" where
  "storeClient store reps =
     \<lparr>fetchLeads = (\<lambda>p. Inr (succeeded (storeFetch store p))),
      fetchSalesReps = (\<lambda>p. Inr (succeeded reps)),
      getLead = (\<lambda>i p. Inr (case find (\<lambda>l. Id l = Val i) store of
                              Some l \<Rightarrow> succeeded l
                            | None \<Rightarrow> failed ''Record does not exist'')),
      createLeads = (\<lambda>rs. Inr (resultsOf (map succeeded rs))),
      updateLeads = (\<lambda>rs. Inr (resultsOf (map succeeded rs))),
      deleteLeads = (\<lambda>ids. Inr (resultsOf (map (\<lambda>i. succeeded ()) ids)))\<rparr>"

text \<open>
  A host whose local time is UTC and whose \<open>Date\<close> parses the strings of \<open>table\<close>; the
  two date formats are the ISO date.
\<close>

definition utcHost :: "int \<Rightarrow> (string \<times> int) list \<Rightarrow> host" where
  "utcHost t table =
     \<lparr>now = t,
      dateParse = map_of table,
      toDateString = isoDate,
      toLocaleDateString = isoDate,
      localMidnight = (\<lambda>d. (d div msPerDay) * msPerDay),
      endOfLocalDay = (\<lambda>d. (d div msPerDay) * msPerDay + msPerDay - 1),
      plusLocalDays = (\<lambda>d n. d + n * msPerDay)\<rparr>"


text \<open>A client of a store that answers every call with a failure, \<open>success = false\<close>.\<close>

definition downClient :: "string \<Rightarrow> client" where
  "downClient m =
     \<lparr>fetchLeads = (\<lambda>p. Inr (failed m)),
      fetchSalesReps = (\<lambda>p. Inr (failed m)),
      getLead = (\<lambda>i p. Inr (failed m)),
      createLeads = (\<lambda>rs. Inr (failed m)),
      updateLeads = (\<lambda>rs. Inr (failed m)),
      deleteLeads = (\<lambda>ids. Inr (failed m))\<rparr>"

section \<open>An example store\<close>

text \<open>
  The instant is 2026-11-02T17:20:00Z. Bob added two leads today, Eve (who is not a
  sales rep) one, one lead of today has no rep, Ann added a lead yesterday and Bob one on
  2026-10-30.
\<close>

definition exampleHost :: host where
  "exampleHost = utcHost 1793640000000
     [(''2026-11-02T10:00:00.000Z'', 1793613600000),
      (''2026-11-02T11:30:00.000Z'', 1793619000000),
      (''2026-11-01T10:00:00.000Z'', 1793527200000),
      (''2026-10-30T09:00:00.000Z'', 1793350800000)]"

definition exampleReps :: "sales_rep list" where
  "exampleReps =
     [noRep\<lparr>Id := Val 7, Name := Val ''Ann'', meetings_booked_c := Val 4, deals_closed_c := Val 1\<rparr>,
      noRep\<lparr>Id := Val 8, Name := Val ''Bob''\<rparr>]"

definition exampleLeads :: "lead list" where
  "exampleLeads =
     [noLead\<lparr>Id := Val 1, website_url_c := Val ''https://a.com'', status_c := Val ''Hot'',
             added_by_c := Val (RefObj (Val 8) (Val ''Bob'')),
             created_at_c := Val ''2026-11-02T10:00:00.000Z''\<rparr>,
      noLead\<lparr>Id := Val 2, website_url_c := Val ''https://b.com'', status_c := Val ''Hot'',
             category_c := Val ''SaaS'',
             added_by_c := Val (RefObj (Val 8) (Val ''Bob'')),
             created_at_c := Val ''2026-11-02T11:30:00.000Z''\<rparr>,
      noLead\<lparr>Id := Val 3, website_url_c := Val ''https://c.com'',
             added_by_c := Val (RefObj (Val 9) (Val ''Eve'')),
             created_at_c := Val ''2026-11-02T10:00:00.000Z''\<rparr>,
      noLead\<lparr>Id := Val 4, website_url_c := Val ''https://d.com'',
             created_at_c := Val ''2026-11-02T11:30:00.000Z''\<rparr>,
      noLead\<lparr>Id := Val 5, website_url_c := Val ''https://e.com'', category_c := Val ''SaaS'',
             added_by_c := Val (RefId 7),
             created_at_c := Val ''2026-11-01T10:00:00.000Z''\<rparr>,
      noLead\<lparr>Id := Val 6, website_url_c := Val ''https://f.com/'',
             added_by_c := Val (RefObj (Val 8) (Val ''Bob'')),
             created_at_c := Val ''2026-10-30T09:00:00.000Z''\<rparr>]"

definition exampleClient :: client where
  "exampleClient = storeClient exampleLeads exampleReps"


text \<open>
  The same store when its answers to \<open>fetchRecords('lead_c', \<dots>)\<close> are failures: the
  other calls are answered as before.
\<close>

definition flakyClient :: client where
  "flakyClient = exampleClient\<lparr>fetchLeads := (\<lambda>p. Inr (failed ''Service unavailable''))\<rparr>"

section \<open>Notions used in the statements\<close>

text \<open>The call \<open>fetchRecords('lead_c', p)\<close> is rejected.\<close>

definition rejects :: "client \<Rightarrow> params \<Rightarrow> bool" where
  "rejects c p = (case fetchLeads c p of Inl e \<Rightarrow> True | Inr response \<Rightarrow> False)"

text \<open>The call is answered, with success and at least one record.\<close>

definition findsPrevious :: "client \<Rightarrow> params \<Rightarrow> bool" where
  "findsPrevious c p = (case fetchLeads c p of Inl e \<Rightarrow> False | Inr response \<Rightarrow> \<not> noPrevious response)"

text \<open>The URL of an element of \<open>leadsArray\<close>, \<open>lead.websiteUrl || lead.website_url_c\<close>.\<close>

definition urlOf :: "lead \<Rightarrow> string js" where
  "urlOf l = orS (websiteUrl l) (website_url_c l)"

text \<open>
  The store holds a record with the URL of \<open>l\<close> that was created before the start
  (in UTC) of the day of \<open>now\<close>.
\<close>

definition existedBefore :: "host \<Rightarrow> lead list \<Rightarrow> lead \<Rightarrow> bool" where
  "existedBefore h store l =
     list_ex (\<lambda>r. qS (website_url_c r) = qS (urlOf l)
                 \<and> (case created_at_c r of
                       Val s \<Rightarrow> s < isoDate (now h) @ ''T00:00:00Z''
                     | _ \<Rightarrow> False)) store"

text \<open>
  The name of the rep of a lead of today is the key of a fetched sales rep, or is
  \<open>'Unknown'\<close>.
\<close>

definition hasEntry :: "sales_rep list \<Rightarrow> lead \<Rightarrow> bool" where
  "hasEntry salesReps l =
     (toKey (repNameOf l) \<in> set (map (\<lambda>rep. toKey (Name rep)) salesReps)
      \<or> repNameOf l = Val ''Unknown'')"



section \<open>Verification\<close>

subsection \<open>Effects\<close>

lemmas io_defs = bind_def return_def throw_def tryCatch_def console_error_def
  fetchRecords_lead_c_def fetchRecords_sales_rep_c_def getRecordById_lead_c_def
  createRecord_lead_c_def updateRecord_lead_c_def deleteRecord_lead_c_def




subsection \<open>Values of the operations\<close>

lemma getLeads_value:
  "snd (getLeads h c) =
     Inr (case fetchLeads c getLeads_params of
            Inl e \<Rightarrow> \<lparr>leads_result.leads = [], deduplicationResult = Null\<rparr>
          | Inr response \<Rightarrow>
              \<lparr>leads_result.leads = (if success response then map (transformLead h) (dataOrEmpty response)
                        else []),
               deduplicationResult = Null\<rparr>)"
  by (simp add: getLeads_def tryCatch_def bind_def fetchRecords_lead_c_def console_error_def
      return_def split: sum.splits prod.splits)

subsection \<open>C7: the read transform\<close>



subsection \<open>C3: aggregate counts sum to the length of the input\<close>












subsection \<open>C6: the reports are sorted by their metric, descending\<close>



lemma set_sortDescending: "set (sortDescending f xs) = set xs"
  by (simp add: sortDescending_def)

lemma getUserPerformance_value:
  "snd (getUserPerformance h c) = Inr []
   \<or> (\<exists>rr lr fetched. fetchSalesReps c performance_repParams = Inr rr \<and> success rr
        \<and> fetchLeads c performance_leadParams = Inr lr \<and> dataIfSuccess lr = Some fetched
        \<and> snd (getUserPerformance h c)
            = Inr (sortDescending user_stats.totalLeads (map (userStat h fetched) (dataOrEmpty rr))))"
  unfolding getUserPerformance_def
  by (auto simp: io_defs Let_def split: sum.splits prod.splits option.splits)



lemma getDailyLeadsReport_success:
  assumes "fetchLeads c (dailyReport_leadParams h) = Inr lr"
    "fetchSalesReps c dailyReport_repParams = Inr rr"
    "dataIfSuccess lr = Some ls" "dataIfSuccess rr = Some reps"
  shows "snd (getDailyLeadsReport h c) = Inr (buildReport reps ls)"
  using assms unfolding getDailyLeadsReport_def
  by (auto simp: io_defs Let_def split: sum.splits prod.splits option.splits)








subsection \<open>C8: no percentage is computed with a zero divisor\<close>

lemma getLeadsMetrics_try_trend:
  "snd (getLeadsMetrics_try h c userId) = Inr r \<Longrightarrow>
     trend (today (metrics r))
       = Val (todayTrend (period_metric.count (today (metrics r)))
                (period_metric.count (yesterday (metrics r))))"
  unfolding getLeadsMetrics_try_def fetchPeriod_def lengthOf_def
  by (auto simp: io_defs split: sum.splits prod.splits option.splits if_splits)

lemma conversionRateOf_zero:
  "(\<forall>m. meetings_booked_c rep = Val m \<longrightarrow> m \<le> 0) \<Longrightarrow> conversionRateOf rep = Fin 0"
  by (auto simp: conversionRateOf_def split: js.splits)

lemma meetingsBooked_userStat:
  "meetingsBooked (userStat h fetched rep) = Val m \<Longrightarrow> 0 < m \<Longrightarrow> meetings_booked_c rep = Val m"
  by (auto simp: userStat_def Let_def orN_def split: if_splits)

lemma userStat_conversionRate:
  "(\<forall>m. meetingsBooked (userStat h fetched rep) = Val m \<longrightarrow> m \<le> 0) \<Longrightarrow>
     conversionRate (userStat h fetched rep) = Fin 0"
proof -
  assume a: "\<forall>m. meetingsBooked (userStat h fetched rep) = Val m \<longrightarrow> m \<le> 0"
  have "\<forall>m. meetings_booked_c rep = Val m \<longrightarrow> m \<le> 0"
  proof (intro allI impI)
    fix m assume m: "meetings_booked_c rep = Val m"
    show "m \<le> 0"
    proof (rule ccontr)
      assume "\<not> m \<le> 0"
      then have "meetingsBooked (userStat h fetched rep) = Val m"
        using m by (simp add: userStat_def Let_def orN_def)
      with a \<open>\<not> m \<le> 0\<close> show False by blast
    qed
  qed
  then show ?thesis by (simp add: userStat_def Let_def conversionRateOf_zero)
qed

lemma getUserPerformance_entries:
  "snd (getUserPerformance h c) = Inr xs \<Longrightarrow> x \<in> set xs \<Longrightarrow>
     \<exists>fetched rep. x = userStat h fetched rep"
  using getUserPerformance_value [of h c]
  by (auto simp: set_sortDescending) (rule exI, rule exI, rule refl)

text \<open>
  C8: in the \<open>try\<close> block of \<open>getLeadsMetrics\<close>, whenever \<open>yesterdayCount\<close> is 0 the trend
  of today is the constant 100, whatever \<open>todayCount\<close> is; in every entry of
  \<open>getUserPerformance\<close> whose rep has no \<open>meetings_booked_c\<close> greater than 0, the
  \<open>conversionRate\<close> is 0. The quotient is computed in the other cases only.
\<close>

theorem C8_no_division_by_zero:
  "(snd (getLeadsMetrics_try h c userId) = Inr r
      \<longrightarrow> period_metric.count (yesterday (metrics r)) = 0
      \<longrightarrow> trend (today (metrics r)) = Val 100)
   \<and> todayTrend todayCount 0 = 100
   \<and> (snd (getUserPerformance h c) = Inr xs
      \<longrightarrow> (\<forall>x\<in>set xs. (\<forall>m. meetingsBooked x = Val m \<longrightarrow> m \<le> 0) \<longrightarrow> conversionRate x = Fin 0))
   \<and> ((\<forall>m. meetings_booked_c rep = Val m \<longrightarrow> m \<le> 0) \<longrightarrow> conversionRateOf rep = Fin 0)"
proof (intro conjI impI ballI)
  assume "snd (getLeadsMetrics_try h c userId) = Inr r"
    and "period_metric.count (yesterday (metrics r)) = 0"
  then show "trend (today (metrics r)) = Val 100"
    by (simp add: getLeadsMetrics_try_trend todayTrend_def)
next
  show "todayTrend todayCount 0 = 100" by (simp add: todayTrend_def)
next
  fix x
  assume "snd (getUserPerformance h c) = Inr xs" "x \<in> set xs"
    and m: "\<forall>m. meetingsBooked x = Val m \<longrightarrow> m \<le> 0"
  then obtain fetched rep where "x = userStat h fetched rep"
    using getUserPerformance_entries by blast
  with m show "conversionRate x = Fin 0" by (simp add: userStat_conversionRate)
next
  assume "\<forall>m. meetings_booked_c rep = Val m \<longrightarrow> m \<le> 0"
  then show "conversionRateOf rep = Fin 0" by (rule conversionRateOf_zero)
qed

text \<open>
  With an empty store today's and yesterday's counts are 0 and the trend is 100; in the
  example store Bob has no meetings booked and his conversion rate is 0.
\<close>

lemma fetch_empty_store: "fetchLeads (storeClient [] reps) p = Inr (succeeded [])"
  by (simp add: storeClient_def storeFetch_def)

lemma example_empty_metrics:
  "\<exists>r. snd (getLeadsMetrics_try h (storeClient [] []) userId) = Inr r
     \<and> period_metric.count (today (metrics r)) = 0
     \<and> period_metric.count (yesterday (metrics r)) = 0"
  by (simp add: getLeadsMetrics_try_def fetchPeriod_def lengthOf_def io_defs fetch_empty_store
      dataIfSuccess_def succeeded_def)

lemma example_conversion:
  "map_sum id (map (\<lambda>x. (name x, meetingsBooked x)))
     (snd (getUserPerformance exampleHost exampleClient))
   = Inr [(Val ''Bob'', Val 0), (Val ''Ann'', Val 4)]"
  by code_simp

theorem C8_witness:
  "(\<exists>r. snd (getLeadsMetrics_try exampleHost (storeClient [] []) ''all'') = Inr r
      \<and> period_metric.count (today (metrics r)) = 0
      \<and> period_metric.count (yesterday (metrics r)) = 0
      \<and> trend (today (metrics r)) = Val 100)
   \<and> (\<exists>x xs. snd (getUserPerformance exampleHost exampleClient) = Inr (x # xs)
      \<and> name x = Val ''Bob'' \<and> meetingsBooked x = Val 0 \<and> conversionRate x = Fin 0)
   \<and> conversionRateOf (noRep\<lparr>meetings_booked_c := Val 0, deals_closed_c := Val 3\<rparr>) = Fin 0"
proof (intro conjI)
  from example_empty_metrics [of exampleHost "''all''"]
  obtain r where r: "snd (getLeadsMetrics_try exampleHost (storeClient [] []) ''all'') = Inr r"
    "period_metric.count (today (metrics r)) = 0" "period_metric.count (yesterday (metrics r)) = 0"
    by (elim exE conjE)
  have "trend (today (metrics r)) = Val 100"
    by (rule C8_no_division_by_zero [THEN conjunct1, THEN mp, THEN mp, OF r(1) r(3)])
  with r show "\<exists>r. snd (getLeadsMetrics_try exampleHost (storeClient [] []) ''all'') = Inr r
      \<and> period_metric.count (today (metrics r)) = 0
      \<and> period_metric.count (yesterday (metrics r)) = 0
      \<and> trend (today (metrics r)) = Val 100"
    by (intro exI [of _ r] conjI)
next
  from example_conversion
  obtain x y where xs: "snd (getUserPerformance exampleHost exampleClient) = Inr [x, y]"
    and x: "name x = Val ''Bob''" "meetingsBooked x = Val 0"
    by (cases "snd (getUserPerformance exampleHost exampleClient)") auto
  have "\<forall>x\<in>set [x, y]. (\<forall>m. meetingsBooked x = Val m \<longrightarrow> m \<le> 0) \<longrightarrow> conversionRate x = Fin 0"
    by (rule C8_no_division_by_zero [THEN conjunct2, THEN conjunct2, THEN conjunct1, THEN mp, OF xs])
  with x have "conversionRate x = Fin 0" by simp
  with xs x show "\<exists>x xs. snd (getUserPerformance exampleHost exampleClient) = Inr (x # xs)
      \<and> name x = Val ''Bob'' \<and> meetingsBooked x = Val 0 \<and> conversionRate x = Fin 0"
    by (intro exI [of _ x] exI [of _ "[y]"] conjI)
next
  have "\<forall>m. meetings_booked_c (noRep\<lparr>meetings_booked_c := Val 0, deals_closed_c := Val 3\<rparr>) = Val m
          \<longrightarrow> m \<le> 0"
    by simp
  then show "conversionRateOf (noRep\<lparr>meetings_booked_c := Val 0, deals_closed_c := Val 3\<rparr>) = Fin 0"
    by (rule C8_no_division_by_zero [THEN conjunct2, THEN conjunct2, THEN conjunct2, THEN mp])
qed

subsection \<open>C5: the daily chart\<close>










end
